theory Spec2Isabelle
  imports Complex_Main "HOL-Library.Char_ord" "HOL-Library.List_Lexorder"
    "HOL-Library.Product_Lexorder"
begin

section \<open>Data model\<close>

text \<open>
  The library in \<^verbatim>\<open>src/functions/eda_utils.py\<close> works on one pandas DataFrame. A cell of the
  table is a number, a string or a missing value. A Python boolean is the number it equals
  (\<^verbatim>\<open>True == 1\<close>, \<^verbatim>\<open>False == 0\<close>; pandas averages it as such). A float computed by the
  library is an exact real, or \<open>None\<close> for NaN.
\<close>

datatype cell = Num real | Str string | NaN

type_synonym pyfloat = "real option"

text \<open>
  The exceptions a routine can end with. The statistical tests and the summaries of the
  collaborating libraries are parameters of the routines that call them; when such a parameter
  fails, the routine ends with \<open>Library_failure\<close> and the message.
\<close>

datatype error =
    KeyError cell
  | TypeError
  | ValueError string
  | IndexError
  | Library_failure string

text \<open>
  The dtype of a column: numbers (\<^verbatim>\<open>int64\<close>, \<^verbatim>\<open>float64\<close>), booleans, or Python objects. A column
  read from data that holds a string anywhere has dtype object, also when the rows kept later
  hold numbers only.
\<close>

datatype dtype = Number | Boolean | Object

text \<open>
  A DataFrame: the column labels, the dtype of each column and the rows, each row holding one
  cell per column. A row shorter than the label list reads as missing in the remaining
  columns, which is how pandas fills ragged records.
\<close>

record dataframe =
  columns :: "string list"
  dtypes :: "dtype list"
  rows :: "cell list list"

definition dtype_at :: "dataframe \<Rightarrow> nat \<Rightarrow> dtype" where
  "dtype_at df j = (if j < length (dtypes df) then dtypes df ! j else Object)"

definition cell_at :: "cell list \<Rightarrow> nat \<Rightarrow> cell" where
  "cell_at r j = (if j < length r then r ! j else NaN)"

text \<open>\<^verbatim>\<open>Index.get_loc\<close>: the position of a label, if it is there.\<close>

fun get_loc :: "string list \<Rightarrow> string \<Rightarrow> nat option" where
  "get_loc [] n = None"
| "get_loc (c # cs) n = (if c = n then Some 0 else map_option Suc (get_loc cs n))"

definition column_at :: "dataframe \<Rightarrow> nat \<Rightarrow> cell list" where
  "column_at df j = map (\<lambda>r. cell_at r j) (rows df)"

text \<open>\<^verbatim>\<open>df[name]\<close>: one column, or KeyError.\<close>

definition getitem :: "dataframe \<Rightarrow> string \<Rightarrow> error + cell list" where
  "getitem df name =
     (case get_loc (columns df) name of
        None \<Rightarrow> Inl (KeyError (Str name))
      | Some j \<Rightarrow> Inr (column_at df j))"

text \<open>Running a fallible step over a list stops at the first error, as the exception would.\<close>

fun traverse :: "('a \<Rightarrow> error + 'b) \<Rightarrow> 'a list \<Rightarrow> error + 'b list" where
  "traverse f [] = Inr []"
| "traverse f (x # xs) =
     (case f x of
        Inl e \<Rightarrow> Inl e
      | Inr y \<Rightarrow> (case traverse f xs of Inl e \<Rightarrow> Inl e | Inr ys \<Rightarrow> Inr (y # ys)))"

definition locate :: "dataframe \<Rightarrow> string \<Rightarrow> error + nat" where
  "locate df name =
     (case get_loc (columns df) name of
        None \<Rightarrow> Inl (KeyError (Str name))
      | Some j \<Rightarrow> Inr j)"

text \<open>
  \<^verbatim>\<open>df[features]\<close> with a list of labels: a new table of those columns, in that order, each
  with the dtype it has in \<^verbatim>\<open>df\<close>.
\<close>

definition select :: "dataframe \<Rightarrow> string list \<Rightarrow> error + dataframe" where
  "select df features =
     (case traverse (locate df) features of
        Inl e \<Rightarrow> Inl e
      | Inr js \<Rightarrow>
          Inr \<lparr>columns = features, dtypes = map (dtype_at df) js,
               rows = map (\<lambda>r. map (cell_at r) js) (rows df)\<rparr>)"

text \<open>
  Elementwise \<^verbatim>\<open>==\<close>: a missing value equals nothing, itself included.
\<close>

definition pyeq :: "cell \<Rightarrow> cell \<Rightarrow> bool" where
  "pyeq a b = (a \<noteq> NaN \<and> a = b)"

text \<open>
  \<^verbatim>\<open>df[mask]\<close> with a boolean mask: a new table of the rows whose mask entry is true. The
  columns keep their labels and their dtypes.
\<close>

definition boolean_index :: "dataframe \<Rightarrow> bool list \<Rightarrow> dataframe" where
  "boolean_index df keep = df\<lparr>rows := map fst (filter snd (zip (rows df) keep))\<rparr>"

text \<open>
  \<^verbatim>\<open>Series.unique()\<close>: the distinct values in order of first appearance; all missing values
  count as one value.
\<close>

fun unique :: "cell list \<Rightarrow> cell list" where
  "unique [] = []"
| "unique (x # xs) = x # unique (filter (\<lambda>y. y \<noteq> x) xs)"

text \<open>
  The order pandas sorts group keys in: numbers by value, strings by code point. A key column
  mixing numbers and strings has no order in Python; here numbers come first.
\<close>

fun cell_rank :: "cell \<Rightarrow> nat \<times> real \<times> string" where
  "cell_rank (Num r) = (0, r, [])"
| "cell_rank (Str s) = (1, 0, s)"
| "cell_rank NaN = (2, 0, [])"

text \<open>\<^verbatim>\<open>groupby\<close> drops the missing keys and sorts the others.\<close>

definition group_keys :: "cell list \<Rightarrow> cell list" where
  "group_keys keys = sort_key cell_rank (unique (filter (\<lambda>k. k \<noteq> NaN) keys))"

definition group_values :: "cell list \<Rightarrow> cell list \<Rightarrow> cell \<Rightarrow> cell list" where
  "group_values keys vals k = map snd (filter (\<lambda>p. fst p = k) (zip keys vals))"

fun numbers :: "cell list \<Rightarrow> real list" where
  "numbers [] = []"
| "numbers (Num r # cs) = r # numbers cs"
| "numbers (_ # cs) = numbers cs"

fun is_str :: "cell \<Rightarrow> bool" where
  "is_str (Str s) = True"
| "is_str _ = False"

text \<open>
  The mean of a group: missing values are skipped, a group with no number has mean NaN, and
  a string cannot be averaged.
\<close>

definition series_mean :: "cell list \<Rightarrow> error + pyfloat" where
  "series_mean vs =
     (if list_ex is_str vs then Inl TypeError
      else if numbers vs = [] then Inr None
      else Inr (Some (sum_list (numbers vs) / real (length (numbers vs)))))"

text \<open>\<^verbatim>\<open>df.groupby(splitter)[feature].mean()\<close>\<close>

definition groupby_mean :: "dataframe \<Rightarrow> string \<Rightarrow> string \<Rightarrow> error + (cell \<times> pyfloat) list" where
  "groupby_mean df splitter feature =
     (case getitem df splitter of
        Inl e \<Rightarrow> Inl e
      | Inr keys \<Rightarrow>
          (case getitem df feature of
             Inl e \<Rightarrow> Inl e
           | Inr vals \<Rightarrow>
               traverse (\<lambda>k. map_sum id (Pair k) (series_mean (group_values keys vals k)))
                 (group_keys keys)))"

definition times100 :: "cell \<times> pyfloat \<Rightarrow> cell \<times> pyfloat" where
  "times100 p = (fst p, map_option (\<lambda>m. m * 100) (snd p))"

text \<open>
  \<^verbatim>\<open>sort_values(ascending=False)\<close>: largest value first, NaN last. pandas sorts with numpy's
  quicksort, which is not stable, so the code does not fix the order of groups with equal
  values. The model keeps them in the order they came in; no property below depends on the
  order of ties.
\<close>

fun desc_rank :: "cell \<times> pyfloat \<Rightarrow> nat \<times> real" where
  "desc_rank (k, Some v) = (0, - v)"
| "desc_rank (k, None) = (1, 0)"

definition sort_values_desc :: "(cell \<times> pyfloat) list \<Rightarrow> (cell \<times> pyfloat) list" where
  "sort_values_desc s = sort_key desc_rank s"

text \<open>
  \<^verbatim>\<open>value_counts()\<close>: the number of rows of each value that is not missing, most frequent first (values of
  equal frequency in the order they first appear; this order, too, is not fixed by pandas).
\<close>

definition value_counts :: "cell list \<Rightarrow> (cell \<times> nat) list" where
  "value_counts col =
     sort_key (\<lambda>p. - int (snd p))
       (map (\<lambda>k. (k, length (filter (\<lambda>c. c = k) col))) (unique (filter (\<lambda>k. k \<noteq> NaN) col)))"

section \<open>Effects\<close>

text \<open>
  A routine reads the table it is given, prints lines and renders figures. The state is the
  table and what has been printed and rendered so far; a routine returns normally or with the
  exception that ended it, together with the state it leaves. A figure is recorded by the data
  it shows. A drawing call fails where the routine hands it nothing to draw or a colour it
  does not accept; these failures are written out in the routines below.
\<close>

datatype colour_arg = One_colour string | Colour_list "string option list"

text \<open>
  The table \<^verbatim>\<open>describe()\<close> gives: the names of the statistics, and for each described column
  its label and the value of each statistic.
\<close>

record summary =
  statistics :: "string list"
  described :: "(string \<times> cell list) list"

datatype event =
    Print_shapiro string cell pyfloat pyfloat
  | Qq_plot nat "(real \<times> real) list"
  | Set_title nat cell
  | Show_grid
  | Print_kruskal pyfloat pyfloat
  | Print_correlation string string pyfloat
  | Bar_chart string "(cell \<times> pyfloat) list" colour_arg "pyfloat list"
  | Heatmap "string list" "pyfloat list list"
  | Box_plot cell dataframe
  | Print_summary summary
  | Print_group_summary cell "(cell \<times> cell list) list"
  | Pie_chart cell "(cell \<times> pyfloat) list" "string list"

record world =
  table :: dataframe
  out :: "event list"

definition emit :: "event \<Rightarrow> world \<Rightarrow> world" where
  "emit e s = s\<lparr>out := out s @ [e]\<rparr>"

section \<open>plot\_percentage\<close>

text \<open>
  Line 134: \<^verbatim>\<open>percent = (df.groupby(splitter)[feature].mean()*100).sort_values(ascending=False)\<close>
\<close>

definition percent_of :: "dataframe \<Rightarrow> string \<Rightarrow> string \<Rightarrow> error + (cell \<times> pyfloat) list" where
  "percent_of df splitter feature =
     (case groupby_mean df splitter feature of
        Inl e \<Rightarrow> Inl e
      | Inr means \<Rightarrow> Inr (sort_values_desc (map times100 means)))"

text \<open>
  The colour argument of line 138 is a colour name or a list of colours. pandas refuses a
  list that is empty or holds something that is not a colour, such as \<^verbatim>\<open>None\<close>. A colour name
  is taken to be one matplotlib knows, as the names in this library are.
\<close>

fun valid_colour :: "colour_arg \<Rightarrow> bool" where
  "valid_colour (One_colour c) = True"
| "valid_colour (Colour_list cs) = (cs \<noteq> [] \<and> list_all (\<lambda>c. c \<noteq> None) cs)"

text \<open>
  Line 138, \<^verbatim>\<open>percent.plot(kind='bar', ax=ax, color=colour)\<close>, raises ValueError for a colour
  argument pandas refuses and IndexError when \<^verbatim>\<open>percent\<close> has no group to draw. Otherwise the
  bar chart carries its title, one bar per group in the sorted order, the colour argument and
  the height written above each bar.
\<close>

definition plot_percentage ::
  "string \<Rightarrow> string \<Rightarrow> colour_arg \<Rightarrow> world \<Rightarrow> (error + unit) \<times> world" where
  "plot_percentage splitter feature colour s =
     (case percent_of (table s) splitter feature of
        Inl e \<Rightarrow> (Inl e, s)
      | Inr percent \<Rightarrow>
          if \<not> valid_colour colour then (Inl (ValueError ''Invalid color''), s)
          else if percent = [] then (Inl IndexError, s)
          else
            (Inr (),
             emit (Bar_chart (''Percentage of '' @ feature @ '' Reviews by '' @ splitter)
                     percent colour (map snd percent)) s))"

text \<open>The bars of a rendered percentage chart, for reading the result of a call.\<close>

fun chart_values :: "event \<Rightarrow> (cell \<times> pyfloat) list" where
  "chart_values (Bar_chart title bars colour labels) = bars"
| "chart_values _ = []"

definition charted :: "(error + unit) \<times> world \<Rightarrow> (cell \<times> pyfloat) list" where
  "charted r = concat (map chart_values (out (snd r)))"


section \<open>normality\_check\<close>

text \<open>
  \<^verbatim>\<open>plt.subplots(ver_plots, hor_plots)\<close> gives one Axes object for a 1 by 1 grid and an array of
  them otherwise; matplotlib refuses a grid dimension that is not positive. An Axes object is
  named by its position in the grid, row by row.
\<close>

datatype subplots_axes = Single_axes nat | Axes_array "nat list list"

definition plt_subplots :: "int \<Rightarrow> int \<Rightarrow> error + subplots_axes" where
  "plt_subplots nrows ncols =
     (if nrows \<le> 0 \<or> ncols \<le> 0 then Inl (ValueError ''Number of rows and columns must be a positive integer'')
      else if nrows = 1 \<and> ncols = 1 then Inr (Single_axes 0)
      else Inr (Axes_array
             (map (\<lambda>r. map (\<lambda>c. r * nat ncols + c) [0..<nat ncols]) [0..<nat nrows])))"

text \<open>Line 38: \<^verbatim>\<open>axes = axes.flatten() if isinstance(axes, np.ndarray) else [axes]\<close>\<close>

fun flatten_axes :: "subplots_axes \<Rightarrow> nat list" where
  "flatten_axes (Axes_array g) = concat g"
| "flatten_axes (Single_axes a) = [a]"

text \<open>\<^verbatim>\<open>df[df[splitter] == split][feature]\<close>\<close>

definition group_sample :: "dataframe \<Rightarrow> string \<Rightarrow> cell \<Rightarrow> string \<Rightarrow> error + cell list" where
  "group_sample df splitter split feature =
     (case getitem df splitter of
        Inl e \<Rightarrow> Inl e
      | Inr col \<Rightarrow> getitem (boolean_index df (map (\<lambda>c. pyeq c split) col)) feature)"

text \<open>
  The loop of lines 40 to 47 over \<^verbatim>\<open>enumerate(df[splitter].unique())\<close>. The Shapiro-Wilk test
  and the quantile computation of \<^verbatim>\<open>probplot\<close> belong to scipy and are parameters; either may
  raise. In line 46 the sample is computed first, then \<^verbatim>\<open>axes[i]\<close> is read, then
  \<^verbatim>\<open>probplot\<close> is called.
\<close>

fun normality_loop ::
  "(cell list \<Rightarrow> string + pyfloat \<times> pyfloat) \<Rightarrow> (cell list \<Rightarrow> string + (real \<times> real) list) \<Rightarrow>
   string \<Rightarrow> string \<Rightarrow> nat list \<Rightarrow> (nat \<times> cell) list \<Rightarrow> world \<Rightarrow> (error + unit) \<times> world" where
  "normality_loop shapiro probplot splitter feature axes [] s = (Inr (), s)"
| "normality_loop shapiro probplot splitter feature axes ((i, split) # rest) s =
     (case group_sample (table s) splitter split feature of
        Inl e \<Rightarrow> (Inl e, s)
      | Inr sample \<Rightarrow>
     (case shapiro sample of
        Inl m \<Rightarrow> (Inl (Library_failure m), s)
      | Inr (statistic, p_value) \<Rightarrow>
          let s1 = emit (Print_shapiro feature split statistic p_value) s in
     (case group_sample (table s1) splitter split feature of
        Inl e \<Rightarrow> (Inl e, s1)
      | Inr sample2 \<Rightarrow>
          if length axes \<le> i then (Inl IndexError, s1)
          else
     (case probplot sample2 of
        Inl m \<Rightarrow> (Inl (Library_failure m), s1)
      | Inr points \<Rightarrow>
          normality_loop shapiro probplot splitter feature axes rest
            (emit (Set_title (axes ! i) split) (emit (Qq_plot (axes ! i) points) s1))))))"

definition normality_check ::
  "(cell list \<Rightarrow> string + pyfloat \<times> pyfloat) \<Rightarrow> (cell list \<Rightarrow> string + (real \<times> real) list) \<Rightarrow>
   int \<Rightarrow> int \<Rightarrow> string \<Rightarrow> string \<Rightarrow> world \<Rightarrow> (error + unit) \<times> world" where
  "normality_check shapiro probplot ver_plots hor_plots splitter feature s =
     (case plt_subplots ver_plots hor_plots of
        Inl e \<Rightarrow> (Inl e, s)
      | Inr grid \<Rightarrow>
     (case getitem (table s) splitter of
        Inl e \<Rightarrow> (Inl e, s)
      | Inr col \<Rightarrow>
     (case normality_loop shapiro probplot splitter feature (flatten_axes grid)
             (enumerate 0 (unique col)) s of
        (Inl e, s') \<Rightarrow> (Inl e, s')
      | (Inr u, s') \<Rightarrow> (Inr (), emit Show_grid s'))))"

section \<open>kruskal\<close>

text \<open>
  Modelled from the spec: \<^verbatim>\<open>scipy.stats.kruskal\<close>, the Kruskal-Wallis H test of the statistics
  collaborator, which is not part of this repository. It takes the groups, requires at least
  two of them and fails otherwise; with two or more it gives the statistic and the p-value, or
  whatever failure the numeric test \<open>h_test\<close> has on those samples.
\<close>

definition stats_kruskal ::
  "(cell list list \<Rightarrow> string + pyfloat \<times> pyfloat) \<Rightarrow> cell list list \<Rightarrow>
   string + pyfloat \<times> pyfloat" where
  "stats_kruskal h_test groups =
     (if length groups < 2 then Inl ''Need at least two groups in stats.kruskal()''
      else h_test groups)"

definition kruskal ::
  "(cell list list \<Rightarrow> string + pyfloat \<times> pyfloat) \<Rightarrow> string \<Rightarrow> string \<Rightarrow> world \<Rightarrow>
   (error + unit) \<times> world" where
  "kruskal h_test splitter feature s =
     (case getitem (table s) splitter of
        Inl e \<Rightarrow> (Inl e, s)
      | Inr col \<Rightarrow>
     (case traverse (\<lambda>split. group_sample (table s) splitter split feature) (unique col) of
        Inl e \<Rightarrow> (Inl e, s)
      | Inr overall_ratings \<Rightarrow>
     (case stats_kruskal h_test overall_ratings of
        Inl m \<Rightarrow> (Inl (Library_failure m), s)
      | Inr (kruskal_stat, kruskal_p) \<Rightarrow> (Inr (), emit (Print_kruskal kruskal_stat kruskal_p) s))))"

text \<open>The samples the test receives, in the words of the specification: the feature column
  partitioned by each distinct value of the grouping column.\<close>

definition sample_of :: "cell list \<Rightarrow> cell list \<Rightarrow> cell \<Rightarrow> cell list" where
  "sample_of keys vals k = map snd (filter (\<lambda>p. pyeq (fst p) k) (zip keys vals))"

definition partition_by :: "cell list \<Rightarrow> cell list \<Rightarrow> cell list list" where
  "partition_by keys vals = map (sample_of keys vals) (unique keys)"

section \<open>Correlation\<close>

text \<open>
  Modelled from the spec: \<^verbatim>\<open>DataFrame.corr()\<close> of the tabular collaborator, the pairwise Pearson
  correlation matrix. For two columns it uses the rows where both hold a number; the
  coefficient is the sum of the products of the deviations from the means over the square root
  of the product of the two sums of squared deviations, and NaN where that divisor is zero or
  no row is complete. A string in a column cannot be converted and fails.
\<close>

fun complete_pairs :: "cell list \<Rightarrow> cell list \<Rightarrow> (real \<times> real) list" where
  "complete_pairs (Num x # xs) (Num y # ys) = (x, y) # complete_pairs xs ys"
| "complete_pairs (x # xs) (y # ys) = complete_pairs xs ys"
| "complete_pairs xs ys = []"

definition mean :: "real list \<Rightarrow> real" where
  "mean xs = sum_list xs / real (length xs)"

definition codeviation :: "real list \<Rightarrow> real list \<Rightarrow> real" where
  "codeviation xs ys = sum_list (map2 (\<lambda>x y. (x - mean xs) * (y - mean ys)) xs ys)"

definition pearson :: "cell list \<Rightarrow> cell list \<Rightarrow> pyfloat" where
  "pearson a b =
     (let ps = complete_pairs a b; xs = map fst ps; ys = map snd ps;
          divisor = sqrt (codeviation xs xs * codeviation ys ys)
      in if ps = [] then None
         else if divisor \<noteq> 0 then Some (codeviation xs ys / divisor)
         else None)"

definition corr :: "dataframe \<Rightarrow> error + pyfloat list list" where
  "corr df =
     (if list_ex (list_ex is_str) (rows df) then Inl (ValueError ''could not convert string to float'')
      else Inr (map (\<lambda>i. map (\<lambda>j. pearson (column_at df i) (column_at df j))
                            [0..<length (columns df)])
                  [0..<length (columns df)]))"

text \<open>\<^verbatim>\<open>.iloc[i, j]\<close> on the matrix.\<close>

definition iloc :: "pyfloat list list \<Rightarrow> nat \<Rightarrow> nat \<Rightarrow> error + pyfloat" where
  "iloc m i j = (if i < length m \<and> j < length (m ! i) then Inr (m ! i ! j) else Inl IndexError)"

definition correlation_coef :: "string \<Rightarrow> string \<Rightarrow> world \<Rightarrow> (error + unit) \<times> world" where
  "correlation_coef feature_a feature_b s =
     (case select (table s) [feature_a, feature_b] of
        Inl e \<Rightarrow> (Inl e, s)
      | Inr pair \<Rightarrow>
     (case corr pair of
        Inl e \<Rightarrow> (Inl e, s)
      | Inr m \<Rightarrow>
     (case iloc m 0 1 of
        Inl e \<Rightarrow> (Inl e, s)
      | Inr correlation \<Rightarrow> (Inr (), emit (Print_correlation feature_a feature_b correlation) s))))"

text \<open>
  Line 174, \<^verbatim>\<open>sns.heatmap\<close>, raises ValueError on the matrix of an empty feature list, which has
  no entry to take a colour range from.
\<close>

definition correlation_matrix :: "string list \<Rightarrow> world \<Rightarrow> (error + unit) \<times> world" where
  "correlation_matrix features s =
     (case select (table s) features of
        Inl e \<Rightarrow> (Inl e, s)
      | Inr sub \<Rightarrow>
     (case corr sub of
        Inl e \<Rightarrow> (Inl e, s)
      | Inr m \<Rightarrow>
          if m = [] then (Inl (ValueError ''zero-size array to reduction operation''), s)
          else (Inr (), emit (Heatmap features m) s)))"


section \<open>plot\_combined\_boxplot and eda\<close>

definition plot_combined_boxplot :: "cell \<Rightarrow> string list \<Rightarrow> world \<Rightarrow> (error + unit) \<times> world" where
  "plot_combined_boxplot split features s =
     (case select (table s) features of
        Inl e \<Rightarrow> (Inl e, s)
      | Inr sub \<Rightarrow> (Inr (), emit (Box_plot split sub) s))"

text \<open>
  \<^verbatim>\<open>describe()\<close> of one numeric column: the count of its numbers, their mean, their sample
  standard deviation, the smallest, the quartiles by linear interpolation between the two
  nearest ranks, and the largest. Missing values are skipped; a statistic that has no value
  (the deviation of fewer than two numbers, any other of none) is NaN.
\<close>

definition quantile :: "real list \<Rightarrow> real \<Rightarrow> real" where
  "quantile xs q =
     (let sorted_xs = sort xs; h = real (length xs - 1) * q; i = nat \<lfloor>h\<rfloor>
      in if i + 1 < length sorted_xs
         then sorted_xs ! i + (h - real i) * (sorted_xs ! (i + 1) - sorted_xs ! i)
         else sorted_xs ! i)"

definition std :: "real list \<Rightarrow> real" where
  "std xs = sqrt (codeviation xs xs / real (length xs - 1))"

definition describe_numeric :: "cell list \<Rightarrow> cell list" where
  "describe_numeric c =
     (let xs = numbers c
      in [Num (real (length xs)),
          if xs = [] then NaN else Num (mean xs),
          if length xs < 2 then NaN else Num (std xs),
          if xs = [] then NaN else Num (Min (set xs)),
          if xs = [] then NaN else Num (quantile xs (1 / 4)),
          if xs = [] then NaN else Num (quantile xs (1 / 2)),
          if xs = [] then NaN else Num (quantile xs (3 / 4)),
          if xs = [] then NaN else Num (Max (set xs))])"

text \<open>
  \<^verbatim>\<open>describe()\<close> of a column that is not numeric: the count of its values, the number of
  distinct values, the most frequent value and its frequency.
\<close>

definition describe_object :: "cell list \<Rightarrow> cell list" where
  "describe_object c =
     (let counts = value_counts c
      in [Num (real (length (filter (\<lambda>x. x \<noteq> NaN) c))),
          Num (real (length counts)),
          if counts = [] then NaN else fst (hd counts),
          if counts = [] then NaN else Num (real (snd (hd counts)))])"

text \<open>
  \<^verbatim>\<open>DataFrame.describe()\<close> refuses a table without columns. It describes the columns of dtype
  number, with the numeric statistics; a table that has none is described column by column
  with the statistics of objects. The dtype decides, not the cells.
\<close>

definition describe :: "dataframe \<Rightarrow> error + summary" where
  "describe df =
     (if columns df = [] then Inl (ValueError ''Cannot describe a DataFrame without columns'')
      else
        let numeric = filter (\<lambda>j. dtype_at df j = Number) [0..<length (columns df)]
        in if numeric \<noteq> []
           then Inr \<lparr>statistics =
                       [''count'', ''mean'', ''std'', ''min'', ''25%'', ''50%'', ''75%'', ''max''],
                     described =
                       map (\<lambda>j. (columns df ! j, describe_numeric (column_at df j))) numeric\<rparr>
           else Inr \<lparr>statistics = [''count'', ''unique'', ''top'', ''freq''],
                     described =
                       map (\<lambda>j. (columns df ! j, describe_object (column_at df j)))
                         [0..<length (columns df)]\<rparr>)"

text \<open>
  \<^verbatim>\<open>eda\<close> binds \<^verbatim>\<open>df_eda\<close> to a new table and hands that table to the two plotting routines,
  one after the other; what they print and draw goes to the same console and figures.
\<close>

definition eda ::
  "string \<Rightarrow> cell \<Rightarrow> string list \<Rightarrow> world \<Rightarrow> (error + unit) \<times> world" where
  "eda splitter split features s =
     (case getitem (table s) splitter of
        Inl e \<Rightarrow> (Inl e, s)
      | Inr col \<Rightarrow>
          let df_eda = boolean_index (table s) (map (\<lambda>c. pyeq c split) col) in
     (case select df_eda features of
        Inl e \<Rightarrow> (Inl e, s)
      | Inr sub \<Rightarrow>
     (case describe sub of
        Inl e \<Rightarrow> (Inl e, s)
      | Inr printed \<Rightarrow>
          let s1 = emit (Print_summary printed) s in
     (case plot_combined_boxplot split features \<lparr>table = df_eda, out = out s1\<rparr> of
        (Inl e, w) \<Rightarrow> (Inl e, s1\<lparr>out := out w\<rparr>)
      | (Inr u, w) \<Rightarrow>
          (case correlation_matrix features w of
             (r, w') \<Rightarrow> (r, s1\<lparr>out := out w'\<rparr>))))))"

text \<open>
  The subset in the words of the specification: the rows where the grouping column equals the
  target value.
\<close>

definition rows_where :: "dataframe \<Rightarrow> nat \<Rightarrow> cell \<Rightarrow> cell list list" where
  "rows_where df j v = filter (\<lambda>r. pyeq (cell_at r j) v) (rows df)"

text \<open>
  The standard summary in the words of the specification, computed from the table and not
  from what \<^verbatim>\<open>eda\<close> selects: for each feature, the cells of its column in the rows of the
  subset, and their count, mean, deviation, minimum, quartiles and maximum.
\<close>

definition feature_cells :: "dataframe \<Rightarrow> nat \<Rightarrow> cell \<Rightarrow> string \<Rightarrow> cell list" where
  "feature_cells df j v f =
     (case get_loc (columns df) f of
        None \<Rightarrow> []
      | Some i \<Rightarrow> map (\<lambda>r. cell_at r i) (rows_where df j v))"

definition standard_summary :: "dataframe \<Rightarrow> nat \<Rightarrow> cell \<Rightarrow> string list \<Rightarrow> summary" where
  "standard_summary df j v features =
     \<lparr>statistics = [''count'', ''mean'', ''std'', ''min'', ''25%'', ''50%'', ''75%'', ''max''],
      described = map (\<lambda>f. (f, describe_numeric (feature_cells df j v f))) features\<rparr>"

text \<open>The feature columns of the subset as one table, and their pairwise correlations.\<close>

definition feature_frame :: "dataframe \<Rightarrow> nat \<Rightarrow> cell \<Rightarrow> string list \<Rightarrow> dataframe" where
  "feature_frame df j v features =
     \<lparr>columns = features, dtypes = map (\<lambda>f. Number) features,
      rows = map (\<lambda>r. map (\<lambda>f. case get_loc (columns df) f of None \<Rightarrow> NaN
                                                           | Some i \<Rightarrow> cell_at r i) features)
               (rows_where df j v)\<rparr>"

definition feature_correlations ::
  "dataframe \<Rightarrow> nat \<Rightarrow> cell \<Rightarrow> string list \<Rightarrow> pyfloat list list" where
  "feature_correlations df j v features =
     map (\<lambda>a. map (\<lambda>b. pearson (feature_cells df j v a) (feature_cells df j v b)) features)
       features"

section \<open>traveller\_type\<close>

definition color_map :: "string \<rightharpoonup> string" where
  "color_map = map_of
     [(''Solo Leisure'', ''lightblue''),
      (''Business'', ''red''),
      (''Family Leisure'', ''green''),
      (''Couple Leisure'', ''orange'')]"

text \<open>A key that is not a string is not in the mapping.\<close>

fun color_map_get :: "cell \<Rightarrow> string option" where
  "color_map_get (Str t) = color_map t"
| "color_map_get _ = None"

text \<open>Line 294: \<^verbatim>\<open>colors = [color_map[traveller] for traveller in traveller_types]\<close>\<close>

definition pie_colors :: "cell list \<Rightarrow> error + string list" where
  "pie_colors traveller_types =
     traverse (\<lambda>traveller. case color_map_get traveller of
                 None \<Rightarrow> Inl (KeyError traveller) | Some c \<Rightarrow> Inr c) traveller_types"

text \<open>Line 300: \<^verbatim>\<open>colors2 = [color_map.get(traveller) for traveller in type_percent.index]\<close>\<close>

definition bar_colors :: "cell list \<Rightarrow> string option list" where
  "bar_colors index = map color_map_get index"

text \<open>Lines 279 and 280: each count over the sum of the counts, times 100.\<close>

definition traveller_percentages_of :: "cell list \<Rightarrow> (cell \<times> pyfloat) list" where
  "traveller_percentages_of col =
     (let traveller_counts = value_counts col
      in map (\<lambda>p. (fst p, Some (real (snd p) / real (sum_list (map snd traveller_counts)) * 100)))
           traveller_counts)"

text \<open>
  \<^verbatim>\<open>df.groupby('Type of Traveller')['Overall Rating'].describe()\<close>, with the summary of one
  group as a parameter.
\<close>

definition groupby_describe ::
  "(cell list \<Rightarrow> string + cell list) \<Rightarrow> dataframe \<Rightarrow> string \<Rightarrow> string \<Rightarrow>
   error + (cell \<times> cell list) list" where
  "groupby_describe describe_series df splitter feature =
     (case getitem df splitter of
        Inl e \<Rightarrow> Inl e
      | Inr keys \<Rightarrow>
          (case getitem df feature of
             Inl e \<Rightarrow> Inl e
           | Inr vals \<Rightarrow>
               traverse (\<lambda>k. map_sum Library_failure (Pair k)
                               (describe_series (group_values keys vals k)))
                 (group_keys keys)))"

text \<open>
  Line 304, \<^verbatim>\<open>plt.pie\<close>, raises ValueError when there is no traveller type to draw a wedge
  for, that is when the column holds no value.
\<close>

definition traveller_type ::
  "(cell list \<Rightarrow> string + cell list) \<Rightarrow> cell \<Rightarrow> world \<Rightarrow> (error + unit) \<times> world" where
  "traveller_type describe_series split s =
     (case groupby_describe describe_series (table s) ''Type of Traveller'' ''Overall Rating'' of
        Inl e \<Rightarrow> (Inl e, s)
      | Inr summary_stats \<Rightarrow>
          let s1 = emit (Print_group_summary split summary_stats) s in
     (case getitem (table s1) ''Type of Traveller'' of
        Inl e \<Rightarrow> (Inl e, s1)
      | Inr col \<Rightarrow>
          let traveller_percentages = traveller_percentages_of col;
              traveller_types = map fst traveller_percentages in
     (case pie_colors traveller_types of
        Inl e \<Rightarrow> (Inl e, s1)
      | Inr colors \<Rightarrow>
     (case percent_of (table s1) ''Type of Traveller'' ''Recommended'' of
        Inl e \<Rightarrow> (Inl e, s1)
      | Inr type_percent \<Rightarrow>
          let colors2 = bar_colors (map fst type_percent) in
          if traveller_percentages = [] then (Inl (ValueError ''pie of no wedge''), s1)
          else
            let s2 = emit (Pie_chart split traveller_percentages colors) s1
            in plot_percentage ''Type of Traveller'' ''Recommended'' (Colour_list colors2) s2))))"

text \<open>The table of the example in the specification.\<close>

definition example_table :: dataframe where
  "example_table =
     \<lparr>columns = [''Recommended'', ''Type''], dtypes = [Number, Object],
      rows = [[Num 1, Str ''A''], [Num 0, Str ''A''], [Num 1, Str ''B''], [Num 1, Str ''B'']]\<rparr>"

text \<open>A table of two rating columns, the second with a missing value.\<close>

definition ratings_table :: dataframe where
  "ratings_table =
     \<lparr>columns = [''Seat Comfort'', ''Food''], dtypes = [Number, Number],
      rows = [[Num 1, Num 3], [Num 2, NaN], [Num 4, Num 1]]\<rparr>"

text \<open>
  Two tables of ratings by cabin. They have the same labels and the same rows for cabin A.
  In the second the rating of the row of cabin B is a string, so its rating column has dtype
  object.
\<close>

definition cabin_table :: dataframe where
  "cabin_table =
     \<lparr>columns = [''Rating'', ''Cabin''], dtypes = [Number, Object],
      rows = [[Num 0, Str ''A''], [Num 2, Str ''A''], [Num 4, Str ''A''], [Num 5, Str ''B'']]\<rparr>"

definition cabin_table_mixed :: dataframe where
  "cabin_table_mixed =
     \<lparr>columns = [''Rating'', ''Cabin''], dtypes = [Object, Object],
      rows = [[Num 0, Str ''A''], [Num 2, Str ''A''], [Num 4, Str ''A''], [Str ''n/a'', Str ''B'']]\<rparr>"

section \<open>Properties of the table operations\<close>



lemma traverse_total:
  "(\<And>x. x \<in> set xs \<Longrightarrow> f x = Inr (g x)) \<Longrightarrow> traverse f xs = Inr (map g xs)"
  by (induction xs) auto

lemma set_unique: "set (unique xs) = set xs"
  by (induction xs rule: unique.induct) auto

lemma distinct_unique: "distinct (unique xs)"
  by (induction xs rule: unique.induct) (auto simp: set_unique)

















lemmas run_simps =
  percent_of_def groupby_mean_def getitem_def column_at_def cell_at_def group_keys_def
  group_values_def series_mean_def sort_values_desc_def times100_def plot_percentage_def
  emit_def

text \<open>
  C1, as the code has it. For the table with \<^verbatim>\<open>Recommended = [1,0,1,1]\<close> and
  \<^verbatim>\<open>Type = [A,A,B,B]\<close>, \<^verbatim>\<open>plot_percentage('Type','Recommended',df)\<close> draws the bars B = 100.0 and
  A = 50.0, in that order: each value is the group mean of \<^verbatim>\<open>Recommended\<close> times 100.
\<close>

theorem plot_percentage_example:
  "plot_percentage ''Type'' ''Recommended'' (One_colour ''skyblue'')
     \<lparr>table = example_table, out = []\<rparr> =
   (Inr (),
    \<lparr>table = example_table,
     out = [Bar_chart ''Percentage of Recommended Reviews by Type''
              [(Str ''B'', Some 100), (Str ''A'', Some 50)]
              (One_colour ''skyblue'') [Some 100, Some 50]]\<rparr>)"
  by (simp add: run_simps example_table_def)

text \<open>
  The specification's example gives group B the value 50.0. Both rows of group B are
  recommended, so the code draws 100.0 for it.
\<close>

theorem plot_percentage_example_counterexample:
  "map_of (charted (plot_percentage ''Type'' ''Recommended'' (One_colour ''skyblue'')
      \<lparr>table = example_table, out = []\<rparr>)) (Str ''B'') = Some (Some 100)
   \<and> Some (100 :: real) \<noteq> Some 50"
  by (simp add: run_simps example_table_def charted_def)


section \<open>Properties of kruskal\<close>

lemma length_unique: "length (unique xs) = card (set xs)"
  by (metis distinct_card distinct_unique set_unique)

lemma filter_by_own_mask: "map fst (filter snd (zip xs (map P xs))) = filter P xs"
  by (induction xs) auto

lemma columns_boolean_index: "columns (boolean_index df keep) = columns df"
  by (simp add: boolean_index_def)

lemma rows_boolean_index:
  "rows (boolean_index df (map (\<lambda>c. pyeq c v) (column_at df j))) = rows_where df j v"
  using filter_by_own_mask[where P = "\<lambda>r. pyeq (cell_at r j) v" and xs = "rows df"]
  by (simp add: boolean_index_def column_at_def rows_where_def comp_def)

lemma filter_zip_maps:
  "map snd (filter (\<lambda>p. P (fst p)) (zip (map f xs) (map g xs))) = map g (filter (\<lambda>x. P (f x)) xs)"
  by (induction xs) auto

lemma sample_of_columns:
  "sample_of (column_at df i) (column_at df j) v = map (\<lambda>r. cell_at r j) (rows_where df i v)"
  using filter_zip_maps[where P = "\<lambda>c. pyeq c v" and f = "\<lambda>r. cell_at r i" and g = "\<lambda>r. cell_at r j"]
  by (simp add: sample_of_def column_at_def rows_where_def)

lemma group_sample_eq:
  assumes "getitem df splitter = Inr keys" "getitem df feature = Inr vals"
  shows "group_sample df splitter split feature = Inr (sample_of keys vals split)"
proof -
  from assms obtain i j where i: "get_loc (columns df) splitter = Some i" "keys = column_at df i"
    and j: "get_loc (columns df) feature = Some j" "vals = column_at df j"
    by (auto simp: getitem_def split: option.splits)
  have "getitem (boolean_index df (map (\<lambda>c. pyeq c split) keys)) feature
      = Inr (map (\<lambda>r. cell_at r j) (rows_where df i split))"
    by (simp add: getitem_def columns_boolean_index j(1) i(2) column_at_def[of "boolean_index _ _"]
        rows_boolean_index)
  then show ?thesis
    by (simp add: group_sample_def assms(1) i(2) j(2) sample_of_columns)
qed

text \<open>
  C3. When the grouping column takes exactly one distinct value, \<^verbatim>\<open>kruskal\<close> fails: the test
  is handed a single group and refuses it. With at least two distinct values the test is
  handed one sample per value, and \<^verbatim>\<open>kruskal\<close> prints the statistic and the p-value it gives.
\<close>

theorem kruskal_groups:
  assumes "getitem (table s) splitter = Inr keys"
    and "getitem (table s) feature = Inr vals"
  shows "(card (set keys) = 1 \<longrightarrow>
            kruskal h_test splitter feature s =
              (Inl (Library_failure ''Need at least two groups in stats.kruskal()''), s))
       \<and> (2 \<le> card (set keys) \<longrightarrow>
            kruskal h_test splitter feature s =
              (case h_test (partition_by keys vals) of
                 Inl m \<Rightarrow> (Inl (Library_failure m), s)
               | Inr (statistic, p_value) \<Rightarrow> (Inr (), emit (Print_kruskal statistic p_value) s)))"
proof -
  have t: "traverse (\<lambda>split. group_sample (table s) splitter split feature) (unique keys)
         = Inr (partition_by keys vals)"
    unfolding partition_by_def
    by (rule traverse_total) (rule group_sample_eq[OF assms])
  have n: "length (partition_by keys vals) = card (set keys)"
    by (simp add: partition_by_def length_unique)
  show ?thesis
    by (simp add: kruskal_def assms(1) t stats_kruskal_def n)
qed

text \<open>A table with one group and a table with two.\<close>

theorem kruskal_groups_witness:
  "getitem \<lparr>columns = [''Type'', ''Rating''], dtypes = [Object, Number], rows = [[Str ''A'', Num 3], [Str ''A'', Num 5]]\<rparr> ''Type''
     = Inr [Str ''A'', Str ''A'']
   \<and> getitem \<lparr>columns = [''Type'', ''Rating''], dtypes = [Object, Number], rows = [[Str ''A'', Num 3], [Str ''A'', Num 5]]\<rparr> ''Rating''
     = Inr [Num 3, Num 5]
   \<and> card (set [Str ''A'', Str ''A'']) = 1
   \<and> kruskal (\<lambda>groups. Inr (Some 2, Some (1 / 2))) ''Type'' ''Rating''
        \<lparr>table = \<lparr>columns = [''Type'', ''Rating''], dtypes = [Object, Number], rows = [[Str ''A'', Num 3], [Str ''A'', Num 5]]\<rparr>,
         out = []\<rparr>
     = (Inl (Library_failure ''Need at least two groups in stats.kruskal()''),
        \<lparr>table = \<lparr>columns = [''Type'', ''Rating''], dtypes = [Object, Number], rows = [[Str ''A'', Num 3], [Str ''A'', Num 5]]\<rparr>,
         out = []\<rparr>)
   \<and> getitem example_table ''Type'' = Inr [Str ''A'', Str ''A'', Str ''B'', Str ''B'']
   \<and> getitem example_table ''Recommended'' = Inr [Num 1, Num 0, Num 1, Num 1]
   \<and> 2 \<le> card (set [Str ''A'', Str ''A'', Str ''B'', Str ''B''])
   \<and> kruskal (\<lambda>groups. Inr (Some 2, Some (1 / 2))) ''Type'' ''Recommended''
        \<lparr>table = example_table, out = []\<rparr>
     = (Inr (), \<lparr>table = example_table, out = [Print_kruskal (Some 2) (Some (1 / 2))]\<rparr>)"
proof -
  let ?one = "\<lparr>columns = [''Type'', ''Rating''], dtypes = [Object, Number], rows = [[Str ''A'', Num 3], [Str ''A'', Num 5]]\<rparr>"
  let ?h = "\<lambda>groups :: cell list list. Inr (Some 2, Some (1 / 2)) :: string + pyfloat \<times> pyfloat"
  have k1: "getitem (table \<lparr>table = ?one, out = []\<rparr>) ''Type'' = Inr [Str ''A'', Str ''A'']"
    by (simp add: getitem_def column_at_def cell_at_def)
  have v1: "getitem (table \<lparr>table = ?one, out = []\<rparr>) ''Rating'' = Inr [Num 3, Num 5]"
    by (simp add: getitem_def column_at_def cell_at_def)
  have k2: "getitem (table \<lparr>table = example_table, out = []\<rparr>) ''Type''
              = Inr [Str ''A'', Str ''A'', Str ''B'', Str ''B'']"
    by (simp add: getitem_def column_at_def cell_at_def example_table_def)
  have v2: "getitem (table \<lparr>table = example_table, out = []\<rparr>) ''Recommended''
              = Inr [Num 1, Num 0, Num 1, Num 1]"
    by (simp add: getitem_def column_at_def cell_at_def example_table_def)
  have c1: "card (set [Str ''A'', Str ''A'']) = 1" by simp
  have c2: "2 \<le> card (set [Str ''A'', Str ''A'', Str ''B'', Str ''B''])" by simp
  from kruskal_groups[OF k1 v1, of ?h] kruskal_groups[OF k2 v2, of ?h] k1 v1 k2 v2 c1 c2
  show ?thesis by (simp add: emit_def)
qed

section \<open>Properties of normality\_check\<close>

lemma table_emit: "table (emit e s) = table s"
  by (simp add: emit_def)

lemma length_grid:
  "length (concat (map (\<lambda>r. map (\<lambda>c. r * m + c) [0..<m]) [0..<n])) = n * m"
  by (simp add: length_concat comp_def sum_list_triv)

lemma length_flatten_axes:
  assumes "plt_subplots ver hor = Inr grid"
  shows "0 < ver \<and> 0 < hor \<and> length (flatten_axes grid) = nat (ver * hor)"
proof -
  from assms have pos: "0 < ver" "0 < hor"
    by (auto simp: plt_subplots_def split: if_splits)
  show ?thesis
  proof (cases "ver = 1 \<and> hor = 1")
    case True
    with assms show ?thesis by (auto simp: plt_subplots_def)
  next
    case False
    with assms pos have "grid = Axes_array
        (map (\<lambda>r. map (\<lambda>c. r * nat hor + c) [0..<nat hor]) [0..<nat ver])"
      by (auto simp: plt_subplots_def split: if_splits)
    then show ?thesis
      using pos by (simp add: length_grid nat_mult_distrib)
  qed
qed

lemma normality_loop_in_range:
  assumes "\<forall>p \<in> set ps. fst p < length axes"
  shows "fst (normality_loop shapiro probplot splitter feature axes ps s) \<noteq> Inl IndexError"
  using assms
proof (induction ps arbitrary: s)
  case Nil
  then show ?case by simp
next
  case (Cons p ps)
  obtain i split where p: "p = (i, split)" by (cases p)
  from Cons.prems have i: "i < length axes" and rest: "\<forall>p \<in> set ps. fst p < length axes"
    by (auto simp: p)
  show ?case
    using i Cons.IH[OF rest]
    by (auto simp: p Let_def getitem_def group_sample_def split: sum.splits option.splits)
qed

lemma normality_loop_overflow:
  assumes "\<exists>p \<in> set ps. length axes \<le> fst p"
  shows "isl (fst (normality_loop shapiro probplot splitter feature axes ps s))"
  using assms
proof (induction ps arbitrary: s)
  case Nil
  then show ?case by simp
next
  case (Cons p ps)
  obtain i split where p: "p = (i, split)" by (cases p)
  show ?case
  proof (cases "length axes \<le> i")
    case True
    then show ?thesis
      by (auto simp: p Let_def split: sum.splits)
  next
    case False
    with Cons.prems have "\<exists>p \<in> set ps. length axes \<le> fst p"
      by (auto simp: p)
    from Cons.IH[OF this] False show ?thesis
      by (auto simp: p Let_def split: sum.splits)
  qed
qed

lemma normality_loop_index_error:
  assumes "getitem (table s) splitter = Inr keys"
    and "getitem (table s) feature = Inr vals"
    and "\<forall>p \<in> set ps. \<not> isl (shapiro (sample_of keys vals (snd p)))
                      \<and> \<not> isl (probplot (sample_of keys vals (snd p)))"
    and "\<exists>p \<in> set ps. length axes \<le> fst p"
  shows "fst (normality_loop shapiro probplot splitter feature axes ps s) = Inl IndexError"
  using assms
proof (induction ps arbitrary: s)
  case Nil
  then show ?case by simp
next
  case (Cons p ps)
  obtain i split where p: "p = (i, split)" by (cases p)
  have g: "\<And>e. group_sample (table (emit e s)) splitter split feature = Inr (sample_of keys vals split)"
    "group_sample (table s) splitter split feature = Inr (sample_of keys vals split)"
    using group_sample_eq[OF Cons.prems(1,2)] by (simp_all add: table_emit)
  from Cons.prems(3) obtain st pv pts where
    sh: "shapiro (sample_of keys vals split) = Inr (st, pv)"
    and pp: "probplot (sample_of keys vals split) = Inr pts"
    by (cases "shapiro (sample_of keys vals split)"; cases "probplot (sample_of keys vals split)")
       (auto simp: p)
  show ?case
  proof (cases "length axes \<le> i")
    case True
    then show ?thesis
      by (simp add: p g sh Let_def)
  next
    case False
    with Cons.prems(4) have over: "\<exists>p \<in> set ps. length axes \<le> fst p"
      by (auto simp: p)
    let ?s' = "emit (Set_title (axes ! i) split)
                 (emit (Qq_plot (axes ! i) pts) (emit (Print_shapiro feature split st pv) s))"
    have "fst (normality_loop shapiro probplot splitter feature axes ps ?s') = Inl IndexError"
      using Cons.prems(1,2,3) over
      by (intro Cons.IH) (simp_all add: table_emit)
    with False show ?thesis
      by (simp add: p g sh pp Let_def)
  qed
qed

lemma enumerate_fst_bound: "p \<in> set (enumerate 0 xs) \<Longrightarrow> fst p < length xs"
  by (auto simp: in_set_enumerate_eq)

lemma enumerate_has_index: "n < length xs \<Longrightarrow> \<exists>p \<in> set (enumerate 0 xs). n \<le> fst p"
  by (rule bexI[of _ "(n, xs ! n)"]) (auto simp: in_set_enumerate_eq)

lemma enumerate_snd: "p \<in> set (enumerate 0 xs) \<Longrightarrow> snd p \<in> set xs"
  by (auto simp: in_set_enumerate_eq) (metis nth_mem)

text \<open>
  C8. If the grid has at least as many cells as the grouping column has distinct values, no
  read of \<^verbatim>\<open>axes[i]\<close> in the loop is out of range: the routine never ends with that failure.
  If there are more distinct values than cells, the routine fails; it fails with the
  out-of-range read whenever the grid dimensions are positive, the feature column exists and
  the tests on the groups do not fail first.
\<close>

theorem normality_check_grid:
  assumes "getitem (table s) splitter = Inr keys"
  shows "(int (card (set keys)) \<le> ver * hor \<longrightarrow>
            fst (normality_check shapiro probplot ver hor splitter feature s) \<noteq> Inl IndexError)
       \<and> (ver * hor < int (card (set keys)) \<longrightarrow>
            isl (fst (normality_check shapiro probplot ver hor splitter feature s))
          \<and> (0 < ver \<and> 0 < hor \<and> getitem (table s) feature = Inr vals
             \<and> (\<forall>g \<in> set (partition_by keys vals). \<not> isl (shapiro g) \<and> \<not> isl (probplot g))
             \<longrightarrow> fst (normality_check shapiro probplot ver hor splitter feature s) = Inl IndexError))"
proof (intro conjI impI)
  assume cap: "int (card (set keys)) \<le> ver * hor"
  show "fst (normality_check shapiro probplot ver hor splitter feature s) \<noteq> Inl IndexError"
  proof (cases "plt_subplots ver hor")
    case (Inl e)
    then show ?thesis
      by (auto simp: normality_check_def plt_subplots_def split: if_splits)
  next
    case (Inr grid)
    from length_flatten_axes[OF Inr] cap
    have "length (unique keys) \<le> length (flatten_axes grid)"
      by (simp add: length_unique)
    then have "\<forall>p \<in> set (enumerate 0 (unique keys)). fst p < length (flatten_axes grid)"
      using enumerate_fst_bound by fastforce
    from normality_loop_in_range[OF this, of shapiro probplot splitter feature s]
    show ?thesis
      by (auto simp: normality_check_def Inr assms split: sum.splits prod.splits)
  qed
next
  assume over: "ver * hor < int (card (set keys))"
  show "isl (fst (normality_check shapiro probplot ver hor splitter feature s))"
  proof (cases "plt_subplots ver hor")
    case (Inl e)
    then show ?thesis by (simp add: normality_check_def)
  next
    case (Inr grid)
    from length_flatten_axes[OF Inr] have "0 \<le> ver * hor"
      by simp
    with length_flatten_axes[OF Inr] over
    have "length (flatten_axes grid) < length (unique keys)"
      by (simp add: length_unique nat_less_iff)
    from normality_loop_overflow[OF enumerate_has_index[OF this],
        of shapiro probplot splitter feature s]
    show ?thesis
      by (auto simp: normality_check_def Inr assms split: sum.splits prod.splits)
  qed
next
  assume over: "ver * hor < int (card (set keys))"
    and ok: "0 < ver \<and> 0 < hor \<and> getitem (table s) feature = Inr vals
             \<and> (\<forall>g \<in> set (partition_by keys vals). \<not> isl (shapiro g) \<and> \<not> isl (probplot g))"
  then have "\<not> isl (plt_subplots ver hor)"
    by (simp add: plt_subplots_def)
  then obtain grid where grid: "plt_subplots ver hor = Inr grid"
    by (cases "plt_subplots ver hor") auto
  from length_flatten_axes[OF grid] have "0 \<le> ver * hor"
    by simp
  with length_flatten_axes[OF grid] over
  have "length (flatten_axes grid) < length (unique keys)"
    by (simp add: length_unique nat_less_iff)
  then have idx: "\<exists>p \<in> set (enumerate 0 (unique keys)). length (flatten_axes grid) \<le> fst p"
    by (rule enumerate_has_index)
  have calls: "\<forall>p \<in> set (enumerate 0 (unique keys)).
      \<not> isl (shapiro (sample_of keys vals (snd p))) \<and> \<not> isl (probplot (sample_of keys vals (snd p)))"
    using ok enumerate_snd by (fastforce simp: partition_by_def)
  from ok have vals: "getitem (table s) feature = Inr vals" by simp
  from normality_loop_index_error[OF assms vals calls idx]
  show "fst (normality_check shapiro probplot ver hor splitter feature s) = Inl IndexError"
    by (auto simp: normality_check_def grid assms split: sum.splits prod.splits)
qed

text \<open>
  The example table has two groups: a grid of 1 by 2 holds them, a grid of 1 by 1 does not.
\<close>

theorem normality_check_grid_witness:
  "getitem example_table ''Type'' = Inr [Str ''A'', Str ''A'', Str ''B'', Str ''B'']
   \<and> getitem example_table ''Recommended'' = Inr [Num 1, Num 0, Num 1, Num 1]
   \<and> int (card (set [Str ''A'', Str ''A'', Str ''B'', Str ''B''])) \<le> 1 * 2
   \<and> fst (normality_check (\<lambda>sample. Inr (Some 1, Some 1)) (\<lambda>sample. Inr []) 1 2
             ''Type'' ''Recommended'' \<lparr>table = example_table, out = []\<rparr>) \<noteq> Inl IndexError
   \<and> 1 * 1 < int (card (set [Str ''A'', Str ''A'', Str ''B'', Str ''B'']))
   \<and> partition_by [Str ''A'', Str ''A'', Str ''B'', Str ''B''] [Num 1, Num 0, Num 1, Num 1]
        = [[Num 1, Num 0], [Num 1, Num 1]]
   \<and> fst (normality_check (\<lambda>sample. Inr (Some 1, Some 1)) (\<lambda>sample. Inr []) 1 1
             ''Type'' ''Recommended'' \<lparr>table = example_table, out = []\<rparr>) = Inl IndexError"
proof -
  let ?sh = "\<lambda>sample :: cell list. Inr (Some 1, Some 1) :: string + pyfloat \<times> pyfloat"
  let ?pp = "\<lambda>sample :: cell list. Inr [] :: string + (real \<times> real) list"
  let ?s = "\<lparr>table = example_table, out = []\<rparr>"
  have k: "getitem (table ?s) ''Type'' = Inr [Str ''A'', Str ''A'', Str ''B'', Str ''B'']"
    by (simp add: getitem_def column_at_def cell_at_def example_table_def)
  have v: "getitem (table ?s) ''Recommended'' = Inr [Num 1, Num 0, Num 1, Num 1]"
    by (simp add: getitem_def column_at_def cell_at_def example_table_def)
  have c: "card (set [Str ''A'', Str ''A'', Str ''B'', Str ''B'']) = 2"
    by simp
  have p: "partition_by [Str ''A'', Str ''A'', Str ''B'', Str ''B''] [Num 1, Num 0, Num 1, Num 1]
        = [[Num 1, Num 0], [Num 1, Num 1]]"
    by (simp add: partition_by_def sample_of_def pyeq_def)
  from normality_check_grid[OF k, of 1 2 ?sh ?pp "''Recommended''"]
  have fits: "fst (normality_check ?sh ?pp 1 2 ''Type'' ''Recommended'' ?s) \<noteq> Inl IndexError"
    by (simp add: c)
  from normality_check_grid[OF k, of 1 1 ?sh ?pp "''Recommended''" "[Num 1, Num 0, Num 1, Num 1]"]
  have over: "fst (normality_check ?sh ?pp 1 1 ''Type'' ''Recommended'' ?s) = Inl IndexError"
    using v by (simp add: c p)
  from k v c p fits over show ?thesis by simp
qed

section \<open>Properties of the correlation\<close>

lemma complete_pairs_swap:
  "complete_pairs b a = map (\<lambda>p. (snd p, fst p)) (complete_pairs a b)"
  by (induction a b rule: complete_pairs.induct) auto

lemma codeviation_pairs:
  "codeviation (map fst ps) (map snd ps) =
     sum_list (map (\<lambda>p. (fst p - mean (map fst ps)) * (snd p - mean (map snd ps))) ps)"
  by (simp add: codeviation_def zip_map_fst_snd split_def)

lemma codeviation_swap:
  "codeviation (map snd ps) (map fst ps) = codeviation (map fst ps) (map snd ps)"
proof -
  have "codeviation (map snd ps) (map fst ps) =
          codeviation (map fst (map (\<lambda>p. (snd p, fst p)) ps)) (map snd (map (\<lambda>p. (snd p, fst p)) ps))"
    by (simp add: comp_def)
  also have "\<dots> = sum_list (map (\<lambda>p. (snd p - mean (map snd ps)) * (fst p - mean (map fst ps))) ps)"
    unfolding codeviation_pairs by (simp add: comp_def)
  also have "\<dots> = codeviation (map fst ps) (map snd ps)"
    unfolding codeviation_pairs by (simp add: mult.commute)
  finally show ?thesis .
qed

lemma pearson_commute: "pearson b a = pearson a b"
  by (simp add: pearson_def Let_def complete_pairs_swap[of b a] comp_def codeviation_swap
      mult.commute)







lemma get_loc_Some: "get_loc xs a = Some i \<Longrightarrow> i < length xs \<and> xs ! i = a"
  by (induction xs arbitrary: i) (auto split: if_splits)

lemma traverse_Inr_nth:
  "traverse f xs = Inr ys \<Longrightarrow> length ys = length xs \<and> (\<forall>i < length xs. f (xs ! i) = Inr (ys ! i))"
proof (induction xs arbitrary: ys)
  case Nil
  then show ?case by simp
next
  case (Cons x xs)
  from Cons.prems obtain y ys' where y: "f x = Inr y" and t: "traverse f xs = Inr ys'"
    and ys: "ys = y # ys'"
    by (auto split: sum.splits)
  from Cons.IH[OF t] y show ?case
    by (auto simp: ys nth_Cons split: nat.splits)
qed

lemma select_Inr:
  assumes "select df features = Inr sub"
  shows "\<exists>js. traverse (locate df) features = Inr js \<and> columns sub = features
              \<and> rows sub = map (\<lambda>r. map (cell_at r) js) (rows df)"
  using assms by (auto simp: select_def split: sum.splits)

lemma cell_at_map: "i < length js \<Longrightarrow> cell_at (map f js) i = f (js ! i)"
  by (simp add: cell_at_def)

lemma column_at_select:
  assumes "select df features = Inr sub" and "i < length features"
  shows "getitem df (features ! i) = Inr (column_at sub i)"
proof -
  from select_Inr[OF assms(1)] obtain js where js: "traverse (locate df) features = Inr js"
    and r: "rows sub = map (\<lambda>r. map (cell_at r) js) (rows df)"
    by blast
  from traverse_Inr_nth[OF js] assms(2)
  have len: "i < length js" and loc: "locate df (features ! i) = Inr (js ! i)"
    by simp_all
  from loc have g: "get_loc (columns df) (features ! i) = Some (js ! i)"
    by (auto simp: locate_def split: option.splits)
  have "column_at sub i = column_at df (js ! i)"
    by (simp add: column_at_def r comp_def cell_at_map[OF len])
  then show ?thesis
    by (simp add: getitem_def g)
qed

lemma select_total:
  assumes "\<forall>f \<in> set features. \<not> isl (getitem df f)"
  shows "\<exists>sub. select df features = Inr sub"
proof -
  have "traverse (locate df) features = Inr (map (\<lambda>f. the (get_loc (columns df) f)) features)"
  proof (rule traverse_total)
    fix f assume "f \<in> set features"
    with assms have "\<not> isl (getitem df f)" by simp
    then show "locate df f = Inr (the (get_loc (columns df) f))"
      by (auto simp: getitem_def locate_def split: option.splits)
  qed
  then show ?thesis
    by (simp add: select_def)
qed

lemma select_numeric:
  assumes "select df features = Inr sub"
    and "\<forall>f \<in> set features. \<forall>c. getitem df f = Inr c \<longrightarrow> \<not> list_ex is_str c"
  shows "\<not> list_ex (list_ex is_str) (rows sub)"
proof
  assume "list_ex (list_ex is_str) (rows sub)"
  then obtain r' x where r': "r' \<in> set (rows sub)" and x: "x \<in> set r'" "is_str x"
    by (auto simp: list_ex_iff)
  from select_Inr[OF assms(1)] obtain js where js: "traverse (locate df) features = Inr js"
    and r: "rows sub = map (\<lambda>r. map (cell_at r) js) (rows df)"
    by blast
  from traverse_Inr_nth[OF js] have len: "length js = length features" by simp
  from r' r have lr: "length r' = length features"
    by (auto simp: len)
  from x(1) obtain i where i: "i < length r'" "r' ! i = x"
    by (auto simp: in_set_conv_nth)
  then have "cell_at r' i = x"
    by (simp add: cell_at_def)
  with r' have "x \<in> set (column_at sub i)"
    by (force simp: column_at_def)
  with x(2) have "list_ex is_str (column_at sub i)"
    by (auto simp: list_ex_iff)
  moreover from i lr have "i < length features" by simp
  ultimately show False
    using column_at_select[OF assms(1), of i] assms(2) by (metis nth_mem)
qed

lemma corr_numeric:
  assumes "\<not> list_ex (list_ex is_str) (rows sub)"
  shows "corr sub = Inr (map (\<lambda>i. map (\<lambda>j. pearson (column_at sub i) (column_at sub j))
                                   [0..<length (columns sub)])
                          [0..<length (columns sub)])"
  using assms by (simp add: corr_def)

lemma correlation_matrix_entries:
  assumes "\<forall>f \<in> set features. \<exists>c. getitem (table s) f = Inr c \<and> \<not> list_ex is_str c"
    and "features \<noteq> []"
  shows "\<exists>m. correlation_matrix features s = (Inr (), emit (Heatmap features m) s)
           \<and> length m = length features
           \<and> (\<forall>i < length features. length (m ! i) = length features)
           \<and> (\<forall>i < length features. \<forall>j < length features. \<forall>ci cj.
                 getitem (table s) (features ! i) = Inr ci \<longrightarrow>
                 getitem (table s) (features ! j) = Inr cj \<longrightarrow>
                 m ! i ! j = pearson ci cj)"
proof -
  from assms(1) have "\<forall>f \<in> set features. \<not> isl (getitem (table s) f)"
    by auto
  from select_total[OF this] obtain sub where sub: "select (table s) features = Inr sub"
    by blast
  from assms(1) have num: "\<forall>f \<in> set features. \<forall>c. getitem (table s) f = Inr c \<longrightarrow> \<not> list_ex is_str c"
    by fastforce
  from select_Inr[OF sub] have cols: "columns sub = features"
    by blast
  let ?m = "map (\<lambda>i. map (\<lambda>j. pearson (column_at sub i) (column_at sub j))
                         [0..<length features]) [0..<length features]"
  have c: "corr sub = Inr ?m"
    using corr_numeric[OF select_numeric[OF sub num]] by (simp add: cols)
  have call: "correlation_matrix features s = (Inr (), emit (Heatmap features ?m) s)"
    using assms(2) by (simp add: correlation_matrix_def sub c)
  have entries: "\<forall>i < length features. \<forall>j < length features. \<forall>ci cj.
                 getitem (table s) (features ! i) = Inr ci \<longrightarrow>
                 getitem (table s) (features ! j) = Inr cj \<longrightarrow>
                 ?m ! i ! j = pearson ci cj"
    using column_at_select[OF sub] by auto
  from call entries show ?thesis
    by (intro exI[of _ ?m]) simp
qed

lemma correlation_coef_run:
  assumes "getitem (table s) a = Inr xa" and "getitem (table s) b = Inr xb"
    and "\<not> list_ex is_str xa" and "\<not> list_ex is_str xb"
  shows "correlation_coef a b s = (Inr (), emit (Print_correlation a b (pearson xa xb)) s)"
proof -
  have ex: "\<forall>f \<in> set [a, b]. \<not> isl (getitem (table s) f)"
    using assms(1,2) by simp
  from select_total[OF ex] obtain pair where pair: "select (table s) [a, b] = Inr pair"
    by blast
  have num: "\<forall>f \<in> set [a, b]. \<forall>c. getitem (table s) f = Inr c \<longrightarrow> \<not> list_ex is_str c"
    using assms by auto
  from select_Inr[OF pair] have cols: "columns pair = [a, b]"
    by blast
  have c0: "column_at pair 0 = xa"
    using column_at_select[OF pair, of 0] assms(1) by simp
  have c1: "column_at pair 1 = xb"
    using column_at_select[OF pair, of 1] assms(2) by simp
  have c: "corr pair = Inr [[pearson xa xa, pearson xa xb], [pearson xb xa, pearson xb xb]]"
    using corr_numeric[OF select_numeric[OF pair num]] c0 c1
    by (simp add: cols upt_rec[of 0 2] upt_rec[of 1 2] upt_rec[of 2 2])
  show ?thesis
    by (simp add: correlation_coef_def pair c iloc_def)
qed

text \<open>
  C6. For two numeric columns, \<^verbatim>\<open>correlation_coef(a, b, df)\<close> and
  \<^verbatim>\<open>correlation_coef(b, a, df)\<close> print the same value, the Pearson coefficient of the two
  columns, and that value is the entry for the pair, in either order, of the matrix
  \<^verbatim>\<open>correlation_matrix\<close> draws when both columns are in its list of numeric features.
\<close>

theorem correlation_coef_symmetric:
  assumes "getitem (table s) a = Inr xa" and "getitem (table s) b = Inr xb"
    and "\<not> list_ex is_str xa" and "\<not> list_ex is_str xb"
  shows "correlation_coef a b s = (Inr (), emit (Print_correlation a b (pearson xa xb)) s)
       \<and> correlation_coef b a s = (Inr (), emit (Print_correlation b a (pearson xa xb)) s)
       \<and> (\<forall>features ia ib.
            get_loc features a = Some ia \<and> get_loc features b = Some ib
            \<and> (\<forall>f \<in> set features. \<exists>c. getitem (table s) f = Inr c \<and> \<not> list_ex is_str c)
            \<longrightarrow> (\<exists>m. correlation_matrix features s = (Inr (), emit (Heatmap features m) s)
                    \<and> m ! ia ! ib = pearson xa xb \<and> m ! ib ! ia = pearson xa xb))"
proof (intro conjI allI impI)
  show "correlation_coef a b s = (Inr (), emit (Print_correlation a b (pearson xa xb)) s)"
    by (rule correlation_coef_run[OF assms])
  show "correlation_coef b a s = (Inr (), emit (Print_correlation b a (pearson xa xb)) s)"
    using correlation_coef_run[OF assms(2,1,4,3)] by (simp add: pearson_commute[of xb xa])
next
  fix features ia ib
  assume h: "get_loc features a = Some ia \<and> get_loc features b = Some ib
            \<and> (\<forall>f \<in> set features. \<exists>c. getitem (table s) f = Inr c \<and> \<not> list_ex is_str c)"
  then have ia: "ia < length features" "features ! ia = a"
    and ib: "ib < length features" "features ! ib = b"
    using get_loc_Some by blast+
  from h have hyp: "\<forall>f \<in> set features. \<exists>c. getitem (table s) f = Inr c \<and> \<not> list_ex is_str c"
    by simp
  from ia have ne: "features \<noteq> []"
    by auto
  from correlation_matrix_entries[OF hyp ne] obtain m where
    call: "correlation_matrix features s = (Inr (), emit (Heatmap features m) s)"
    and entries: "\<forall>i < length features. \<forall>j < length features. \<forall>ci cj.
                 getitem (table s) (features ! i) = Inr ci \<longrightarrow>
                 getitem (table s) (features ! j) = Inr cj \<longrightarrow>
                 m ! i ! j = pearson ci cj"
    by blast
  from entries ia ib assms(1,2) have "m ! ia ! ib = pearson xa xb"
    by simp
  moreover from entries ia ib assms(1,2) have "m ! ib ! ia = pearson xb xa"
    by simp
  ultimately show "\<exists>m. correlation_matrix features s = (Inr (), emit (Heatmap features m) s)
                    \<and> m ! ia ! ib = pearson xa xb \<and> m ! ib ! ia = pearson xa xb"
    using call by (auto simp: pearson_commute[of xb xa])
qed




text \<open>On \<open>ratings_table\<close> the coefficient of the two columns is -1, in both orders and in the matrix.\<close>

theorem correlation_coef_symmetric_witness:
  "getitem ratings_table ''Seat Comfort'' = Inr [Num 1, Num 2, Num 4]
   \<and> getitem ratings_table ''Food'' = Inr [Num 3, NaN, Num 1]
   \<and> \<not> list_ex is_str [Num 1, Num 2, Num 4] \<and> \<not> list_ex is_str [Num 3, NaN, Num 1]
   \<and> correlation_coef ''Seat Comfort'' ''Food'' \<lparr>table = ratings_table, out = []\<rparr>
       = (Inr (), \<lparr>table = ratings_table,
                   out = [Print_correlation ''Seat Comfort'' ''Food'' (Some (- 1))]\<rparr>)
   \<and> correlation_coef ''Food'' ''Seat Comfort'' \<lparr>table = ratings_table, out = []\<rparr>
       = (Inr (), \<lparr>table = ratings_table,
                   out = [Print_correlation ''Food'' ''Seat Comfort'' (Some (- 1))]\<rparr>)
   \<and> get_loc [''Food'', ''Seat Comfort''] ''Seat Comfort'' = Some 1
   \<and> get_loc [''Food'', ''Seat Comfort''] ''Food'' = Some 0
   \<and> (\<exists>m. correlation_matrix [''Food'', ''Seat Comfort''] \<lparr>table = ratings_table, out = []\<rparr>
            = (Inr (), \<lparr>table = ratings_table, out = [Heatmap [''Food'', ''Seat Comfort''] m]\<rparr>)
          \<and> m ! 1 ! 0 = Some (- 1) \<and> m ! 0 ! 1 = Some (- 1))"
proof -
  let ?s = "\<lparr>table = ratings_table, out = []\<rparr>"
  have a: "getitem (table ?s) ''Seat Comfort'' = Inr [Num 1, Num 2, Num 4]"
    by (simp add: getitem_def column_at_def cell_at_def ratings_table_def)
  have b: "getitem (table ?s) ''Food'' = Inr [Num 3, NaN, Num 1]"
    by (simp add: getitem_def column_at_def cell_at_def ratings_table_def)
  have na: "\<not> list_ex is_str [Num 1, Num 2, Num 4]"
    by simp
  have nb: "\<not> list_ex is_str [Num 3, NaN, Num 1]"
    by simp
  have p: "pearson [Num 1, Num 2, Num 4] [Num 3, NaN, Num 1] = Some (- 1)"
    by (simp add: pearson_def codeviation_def mean_def Let_def real_sqrt_divide)
  have la: "get_loc [''Food'', ''Seat Comfort''] ''Seat Comfort'' = Some 1"
    by simp
  have lb: "get_loc [''Food'', ''Seat Comfort''] ''Food'' = Some 0"
    by simp
  have h: "\<forall>f \<in> set [''Food'', ''Seat Comfort''].
             \<exists>c. getitem (table ?s) f = Inr c \<and> \<not> list_ex is_str c"
    using a b by simp
  note both = correlation_coef_symmetric[OF a b na nb]
  from both have ab: "correlation_coef ''Seat Comfort'' ''Food'' ?s
      = (Inr (), emit (Print_correlation ''Seat Comfort'' ''Food'' (Some (- 1))) ?s)"
    by (simp add: p)
  from both have ba: "correlation_coef ''Food'' ''Seat Comfort'' ?s
      = (Inr (), emit (Print_correlation ''Food'' ''Seat Comfort'' (Some (- 1))) ?s)"
    by (simp add: p)
  from both have "\<exists>m. correlation_matrix [''Food'', ''Seat Comfort''] ?s
                       = (Inr (), emit (Heatmap [''Food'', ''Seat Comfort''] m) ?s)
                   \<and> m ! 1 ! 0 = Some (- 1) \<and> m ! 0 ! 1 = Some (- 1)"
    using la lb h unfolding p by blast
  with ab ba a b na nb la lb show ?thesis
    by (simp add: emit_def)
qed

section \<open>The table is only read\<close>

lemma table_plot_percentage: "table (snd (plot_percentage splitter feature colour s)) = table s"
  by (simp add: plot_percentage_def table_emit split: sum.splits)

lemma table_normality_loop:
  "table (snd (normality_loop shapiro probplot splitter feature axes ps s)) = table s"
proof (induction ps arbitrary: s)
  case Nil
  then show ?case by simp
next
  case (Cons p ps)
  obtain i split where p: "p = (i, split)" by (cases p)
  show ?case
    by (auto simp: p Let_def Cons.IH table_emit split: sum.splits)
qed

lemma table_normality_check:
  "table (snd (normality_check shapiro probplot ver hor splitter feature s)) = table s"
proof -
  have "table (snd (normality_loop shapiro probplot splitter feature axes ps s)) = table s"
    for axes ps
    by (rule table_normality_loop)
  then show ?thesis
    by (auto simp: normality_check_def table_emit split: sum.splits prod.splits)
       (metis snd_conv)+
qed

lemma table_kruskal: "table (snd (kruskal h_test splitter feature s)) = table s"
  by (simp add: kruskal_def table_emit split: sum.splits prod.splits)

lemma table_correlation_coef: "table (snd (correlation_coef feature_a feature_b s)) = table s"
  by (simp add: correlation_coef_def table_emit split: sum.splits)

lemma table_correlation_matrix: "table (snd (correlation_matrix features s)) = table s"
  by (simp add: correlation_matrix_def table_emit split: sum.splits)

lemma table_plot_combined_boxplot: "table (snd (plot_combined_boxplot split features s)) = table s"
  by (simp add: plot_combined_boxplot_def table_emit split: sum.splits)

lemma table_eda: "table (snd (eda splitter split features s)) = table s"
  by (simp add: eda_def Let_def table_emit split: sum.splits prod.splits)

lemma table_traveller_type: "table (snd (traveller_type describe_series split s)) = table s"
  by (simp add: traveller_type_def Let_def table_emit table_plot_percentage split: sum.splits)

text \<open>
  C9. Every routine of the library leaves the table it is given as it was: the table in the
  state after the call is the table in the state before it, however the call ends.
\<close>

theorem table_unchanged:
  "table (snd (normality_check shapiro probplot ver hor splitter feature s)) = table s
   \<and> table (snd (kruskal h_test splitter feature s)) = table s
   \<and> table (snd (correlation_coef feature_a feature_b s)) = table s
   \<and> table (snd (plot_percentage splitter feature colour s)) = table s
   \<and> table (snd (correlation_matrix features s)) = table s
   \<and> table (snd (plot_combined_boxplot split features s)) = table s
   \<and> table (snd (eda splitter split features s)) = table s
   \<and> table (snd (traveller_type describe_series split s)) = table s"
  by (simp add: table_normality_check table_kruskal table_correlation_coef table_plot_percentage
      table_correlation_matrix table_plot_combined_boxplot table_eda table_traveller_type)

section \<open>Properties of traveller\_type\<close>

lemma traverse_first_failure:
  assumes "\<exists>x \<in> set xs. isl (f x)"
  shows "\<exists>y \<in> set xs. \<exists>e. f y = Inl e \<and> traverse f xs = Inl e"
  using assms
proof (induction xs)
  case Nil
  then show ?case by simp
next
  case (Cons x xs)
  show ?case
  proof (cases "f x")
    case (Inl e)
    then show ?thesis by auto
  next
    case (Inr y)
    with Cons.prems have "\<exists>x \<in> set xs. isl (f x)" by auto
    from Cons.IH[OF this] Inr show ?thesis by auto
  qed
qed

lemma traveller_types_set:
  "set (map fst (traveller_percentages_of col)) = set col - {NaN}"
  by (auto simp: traveller_percentages_of_def value_counts_def Let_def set_unique image_image)

text \<open>
  The colour list of the bar chart is built with \<^verbatim>\<open>color_map.get\<close>, which gives \<^verbatim>\<open>None\<close> for a
  category that is not in the mapping and does not fail; only the list of the pie chart is
  built with a lookup that raises.
\<close>

theorem bar_colors_counterexample:
  "pie_colors [Str ''Student''] = Inl (KeyError (Str ''Student''))
   \<and> bar_colors [Str ''Student''] = [None]"
  by (simp add: pie_colors_def bar_colors_def color_map_def)

text \<open>
  C4, as the code has it. When a category observed in \<^verbatim>\<open>Type of Traveller\<close> is absent from the
  colour mapping, \<^verbatim>\<open>traveller_type\<close> prints the grouped summary and then ends with a lookup
  failure on an observed, unmapped category, raised while the colour list of the pie chart is
  built; no chart is drawn. The lookup used for the bar chart gives \<^verbatim>\<open>None\<close> for such a
  category.
\<close>

theorem traveller_type_unmapped:
  assumes "getitem (table s) ''Type of Traveller'' = Inr col"
    and "groupby_describe describe_series (table s) ''Type of Traveller'' ''Overall Rating''
           = Inr summary_stats"
    and "t \<in> set col" and "t \<noteq> NaN" and "color_map_get t = None"
  shows "(\<exists>k \<in> set col. k \<noteq> NaN \<and> color_map_get k = None \<and>
            traveller_type describe_series split s =
              (Inl (KeyError k), emit (Print_group_summary split summary_stats) s))
       \<and> bar_colors [t] = [None]"
proof -
  let ?look = "\<lambda>traveller. case color_map_get traveller of
                 None \<Rightarrow> Inl (KeyError traveller) | Some c \<Rightarrow> Inr c"
  let ?types = "map fst (traveller_percentages_of col)"
  have "t \<in> set ?types"
    using assms(3,4) by (simp only: traveller_types_set) simp
  moreover have "isl (?look t)"
    by (simp add: assms(5))
  ultimately have "\<exists>x \<in> set ?types. isl (?look x)" by blast
  from traverse_first_failure[OF this] obtain k e where
    k: "k \<in> set ?types" and e: "?look k = Inl e" and t: "traverse ?look ?types = Inl e"
    by blast
  from e have unmapped: "color_map_get k = None" and err: "e = KeyError k"
    by (auto split: option.splits)
  from k have obs: "k \<in> set col" "k \<noteq> NaN"
    by (simp_all only: traveller_types_set) simp_all
  have "traveller_type describe_series split s =
          (Inl (KeyError k), emit (Print_group_summary split summary_stats) s)"
    using t by (simp add: traveller_type_def assms(1,2) table_emit Let_def pie_colors_def err)
  with obs unmapped show ?thesis
    by (auto simp: bar_colors_def assms(5))
qed

text \<open>A table with a business traveller and a student.\<close>

theorem traveller_type_unmapped_witness:
  "getitem \<lparr>columns = [''Type of Traveller'', ''Overall Rating'', ''Recommended''],
            dtypes = [Object, Number, Number],
            rows = [[Str ''Business'', Num 7, Num 1], [Str ''Student'', Num 3, Num 0]]\<rparr>
     ''Type of Traveller'' = Inr [Str ''Business'', Str ''Student'']
   \<and> Str ''Student'' \<in> set [Str ''Business'', Str ''Student'']
   \<and> color_map_get (Str ''Student'') = None
   \<and> traveller_type (\<lambda>vs. Inr [Num (real (length vs))]) (Str ''Economy'')
        \<lparr>table = \<lparr>columns = [''Type of Traveller'', ''Overall Rating'', ''Recommended''],
                   dtypes = [Object, Number, Number],
            rows = [[Str ''Business'', Num 7, Num 1], [Str ''Student'', Num 3, Num 0]]\<rparr>,
         out = []\<rparr>
     = (Inl (KeyError (Str ''Student'')),
        \<lparr>table = \<lparr>columns = [''Type of Traveller'', ''Overall Rating'', ''Recommended''],
                   dtypes = [Object, Number, Number],
            rows = [[Str ''Business'', Num 7, Num 1], [Str ''Student'', Num 3, Num 0]]\<rparr>,
         out = [Print_group_summary (Str ''Economy'')
                  [(Str ''Business'', [Num 1]), (Str ''Student'', [Num 1])]]\<rparr>)"
proof -
  let ?df = "\<lparr>columns = [''Type of Traveller'', ''Overall Rating'', ''Recommended''],
              dtypes = [Object, Number, Number],
            rows = [[Str ''Business'', Num 7, Num 1], [Str ''Student'', Num 3, Num 0]]\<rparr>"
  let ?s = "\<lparr>table = ?df, out = []\<rparr>"
  let ?d = "\<lambda>vs :: cell list. Inr [Num (real (length vs))] :: string + cell list"
  have c: "getitem (table ?s) ''Type of Traveller'' = Inr [Str ''Business'', Str ''Student'']"
    by (simp add: getitem_def column_at_def cell_at_def)
  have g: "groupby_describe ?d (table ?s) ''Type of Traveller'' ''Overall Rating''
             = Inr [(Str ''Business'', [Num 1]), (Str ''Student'', [Num 1])]"
    by (simp add: groupby_describe_def getitem_def column_at_def cell_at_def group_keys_def
        group_values_def)
  have m: "Str ''Student'' \<in> set [Str ''Business'', Str ''Student'']"
    by simp
  have n: "Str ''Student'' \<noteq> NaN"
    by simp
  have u: "color_map_get (Str ''Student'') = None"
    by (simp add: color_map_def)
  have b: "color_map_get (Str ''Business'') \<noteq> None"
    by (simp add: color_map_def)
  from traveller_type_unmapped[OF c g m n u, of "Str ''Economy''"] b
  have "traveller_type ?d (Str ''Economy'') ?s =
          (Inl (KeyError (Str ''Student'')),
           emit (Print_group_summary (Str ''Economy'')
                   [(Str ''Business'', [Num 1]), (Str ''Student'', [Num 1])]) ?s)"
    by auto
  with c m u show ?thesis
    by (simp add: emit_def)
qed

end
